theory Spec2Isabelle
  imports Complex_Main
begin

section \<open>Data model of the session server (backend/server.js)\<close>

text \<open>
  The server keeps every session in one in-memory \<open>Map\<close> from session id to a session
  object. Timestamps are \<open>int\<close> milliseconds, durations are \<open>int\<close> minutes, and a value
  that may be \<open>null\<close> is an \<open>option\<close>.

  The entries of face descriptors and the distances are JavaScript numbers, that is IEEE
  754 doubles. Their type is the parameter \<open>'n\<close> of the model, and the operations the
  code applies to them are the fields of a record the handlers take as an argument:
  nothing is assumed of rounding, overflow, underflow or NaN, and every theorem below
  holds for whatever these operations compute.
\<close>

record 'n arith =
  num_sub :: "'n \<Rightarrow> 'n \<Rightarrow> 'n"
  num_pow2 :: "'n \<Rightarrow> 'n"
  num_add :: "'n \<Rightarrow> 'n \<Rightarrow> 'n"
  num_sqrt :: "'n \<Rightarrow> 'n"
  num_less :: "'n \<Rightarrow> 'n \<Rightarrow> bool"
  num_zero :: 'n
  num_0_6 :: 'n

text \<open>
  In order: \<open>x - y\<close>, \<open>Math.pow(x, 2)\<close>, \<open>x + y\<close>, \<open>Math.sqrt(x)\<close>, \<open>x < y\<close>, and the
  literals \<open>0\<close> and \<open>0.6\<close>.
\<close>

type_synonym socket_id = string
type_synonym session_id = string

record 'n participant =
  socketId :: socket_id
  name :: string
  image_p :: string
  faceDescriptor :: "'n list"
  matched :: bool
  matchDistance :: 'n
  timestamp :: int

record 'n session =
  sid :: session_id
  adminId :: socket_id
  adminName :: string
  referenceImage :: "string option"
  referenceFaceDescriptor :: "'n list option"
  participants :: "'n participant list"
  maxParticipants :: nat
  durationMinutes :: int
  createdAt :: int

type_synonym 'n store = "session_id \<rightharpoonup> 'n session"

text \<open>
  Errors. The handlers report the first four through the acknowledgement callback as
  \<open>{success: false, error: ...}\<close> with the texts \<open>'Session not found'\<close>,
  \<open>'Session is full'\<close> (join: \<open>'Session is full (max 10 participants)'\<close>),
  \<open>'Only session creator can upload reference image'\<close> and
  \<open>'Session host has not uploaded reference image yet'\<close>. \<open>DimensionMismatch\<close> is the
  \<open>Error('Arrays must have the same length')\<close> thrown by \<open>euclideanDistance\<close>, and
  \<open>TypeError\<close> is what reading \<open>.length\<close> of \<open>null\<close> throws.
\<close>

datatype error =
  SessionNotFound | SessionFull | NotAuthorized | ReferenceNotReady
  | DimensionMismatch | TypeError

datatype reply =
  ReplySuccess
  | ReplySession session_id bool
  | ReplyFailure error

text \<open>The object a gallery update carries for one participant.\<close>

record 'n gallery_entry =
  entry_name :: string
  entry_image :: string
  entry_matchDistance :: 'n
  entry_timestamp :: int

datatype 'n event =
  ParticipantJoined nat nat
  | VerificationResult bool 'n "string option" string
  | GalleryUpdated "'n gallery_entry list" nat nat
  | AdminDisconnected
  | ParticipantLeft nat

text \<open>
  Where an event goes: \<open>socket.emit\<close> reaches the calling connection only,
  \<open>io.to(r).emit\<close> reaches the room \<open>r\<close> (the room named by a socket id holds that
  socket alone), \<open>socket.to(r).emit\<close> reaches the room but the caller.
\<close>

datatype target = Unicast socket_id | Room string | RoomExcept string socket_id

type_synonym 'n emission = "target \<times> 'n event"

section \<open>The distance evaluator\<close>

text \<open>The \<open>for\<close> loop of \<open>euclideanDistance\<close>: index \<open>i\<close>, accumulator \<open>sum\<close>.\<close>

function euclid_loop :: "'n arith \<Rightarrow> 'n list \<Rightarrow> 'n list \<Rightarrow> nat \<Rightarrow> 'n \<Rightarrow> 'n" where
  "euclid_loop A arr1 arr2 i s =
     (if i < length arr1
      then euclid_loop A arr1 arr2 (Suc i)
             (num_add A s (num_pow2 A (num_sub A (arr1 ! i) (arr2 ! i))))
      else s)"
  by pat_completeness auto
termination
  by (relation "measure (\<lambda>(A, arr1, arr2, i, s). length arr1 - i)") auto

declare euclid_loop.simps [simp del]

definition euclideanDistance :: "'n arith \<Rightarrow> 'n list \<Rightarrow> 'n list \<Rightarrow> error + 'n" where
  "euclideanDistance A arr1 arr2 =
     (if length arr1 \<noteq> length arr2 then Inl DimensionMismatch
      else Inr (num_sqrt A (euclid_loop A arr1 arr2 0 (num_zero A))))"

text \<open>\<open>const threshold = 0.6\<close>.\<close>

definition threshold :: "'n arith \<Rightarrow> 'n" where
  "threshold A = num_0_6 A"

section \<open>The handlers\<close>

text \<open>JavaScript truthiness of a string or \<open>null\<close>: \<open>null\<close> and \<open>''\<close> are falsy.\<close>

definition truthy :: "string option \<Rightarrow> bool" where
  "truthy v = (case v of None \<Rightarrow> False | Some s \<Rightarrow> s \<noteq> [])"

text \<open>\<open>String.prototype.toUpperCase\<close> on ASCII text.\<close>

definition toUpperCase_char :: "char \<Rightarrow> char" where
  "toUpperCase_char c =
     (let n = (of_char c :: nat) in if 97 \<le> n \<and> n \<le> 122 then char_of (n - 32) else c)"

definition toUpperCase :: "string \<Rightarrow> string" where
  "toUpperCase s = map toUpperCase_char s"

text \<open>
  \<open>create-session\<close>. The string produced by \<open>uuidv4()\<close> and the reading of
  \<open>Date.now()\<close> are inputs; the requested duration is \<open>None\<close> when the request leaves
  it out (the parameter default 30 applies).
\<close>

definition new_session :: "session_id \<Rightarrow> socket_id \<Rightarrow> int \<Rightarrow> int \<Rightarrow> 'n session" where
  "new_session sessionId sock dur now =
     \<lparr> sid = sessionId, adminId = sock, adminName = [], referenceImage = None,
       referenceFaceDescriptor = None, participants = [], maxParticipants = 10,
       durationMinutes = dur, createdAt = now \<rparr>"

definition create_session ::
  "'n store \<Rightarrow> socket_id \<Rightarrow> string \<Rightarrow> int option \<Rightarrow> int \<Rightarrow> reply \<times> 'n store" where
  "create_session sessions sock uuid dur now =
     (let durationMinutes = (case dur of None \<Rightarrow> 30 | Some d \<Rightarrow> d);
          sessionId = toUpperCase (take 8 uuid)
      in (ReplySession sessionId True,
          sessions(sessionId \<mapsto> new_session sessionId sock durationMinutes now)))"

text \<open>\<open>join-session\<close>: no change to the store; the admin is told the head count.\<close>

definition join_session ::
  "'n store \<Rightarrow> socket_id \<Rightarrow> session_id \<Rightarrow> reply \<times> 'n emission list \<times> 'n store" where
  "join_session sessions sock sessionId =
     (case sessions sessionId of
        None \<Rightarrow> (ReplyFailure SessionNotFound, [], sessions)
      | Some s \<Rightarrow>
          if length (participants s) \<ge> maxParticipants s
          then (ReplyFailure SessionFull, [], sessions)
          else (ReplySession sessionId False,
                [(Room (adminId s),
                  ParticipantJoined (length (participants s)) (maxParticipants s))],
                sessions))"

text \<open>\<open>upload-reference-image\<close>.\<close>

definition upload_reference_image ::
  "'n store \<Rightarrow> socket_id \<Rightarrow> session_id \<Rightarrow> string option \<Rightarrow> 'n list option
     \<Rightarrow> reply \<times> 'n store"
  where
  "upload_reference_image sessions sock sessionId img desc =
     (case sessions sessionId of
        None \<Rightarrow> (ReplyFailure SessionNotFound, sessions)
      | Some s \<Rightarrow>
          if adminId s \<noteq> sock then (ReplyFailure NotAuthorized, sessions)
          else (ReplySuccess,
                sessions(sessionId \<mapsto>
                  s\<lparr>referenceImage := img, referenceFaceDescriptor := desc\<rparr>)))"

text \<open>The payload of \<open>gallery-updated\<close>, built from the session after the push.\<close>

definition project :: "'n participant \<Rightarrow> 'n gallery_entry" where
  "project p =
     \<lparr> entry_name = name p, entry_image = image_p p,
       entry_matchDistance = matchDistance p, entry_timestamp = timestamp p \<rparr>"

definition gallery_updated :: "'n session \<Rightarrow> 'n event" where
  "gallery_updated s =
     GalleryUpdated (map project (filter matched (participants s)))
       (length (participants s))
       (length (filter matched (participants s)))"

text \<open>
  \<open>upload-participant-image\<close>. \<open>Inl\<close> is an exception thrown out of the handler
  (by \<open>euclideanDistance\<close>, before the callback and before any change); otherwise the
  result is the reply given to the callback, the events emitted, and the store.
\<close>

definition distance_to_reference :: "'n arith \<Rightarrow> 'n session \<Rightarrow> 'n list \<Rightarrow> error + 'n" where
  "distance_to_reference A s desc =
     (case referenceFaceDescriptor s of
        None \<Rightarrow> Inl TypeError
      | Some r \<Rightarrow> euclideanDistance A r desc)"

definition display_name :: "string option \<Rightarrow> string" where
  "display_name nm = (if truthy nm then the nm else ''Anonymous'')"

text \<open>The object literal \<open>participant\<close> of the handler; \<open>now\<close> is \<open>new Date()\<close>.\<close>

definition participant_record ::
  "socket_id \<Rightarrow> string option \<Rightarrow> string \<Rightarrow> 'n list \<Rightarrow> bool \<Rightarrow> 'n \<Rightarrow> int \<Rightarrow> 'n participant"
  where
  "participant_record sock nm img desc m distance now =
     \<lparr> socketId = sock, name = display_name nm, image_p = img, faceDescriptor = desc,
       matched = m, matchDistance = distance, timestamp = now \<rparr>"

definition upload_participant_image ::
  "'n arith \<Rightarrow> 'n store \<Rightarrow> socket_id \<Rightarrow> session_id \<Rightarrow> string \<Rightarrow> 'n list \<Rightarrow> string option
     \<Rightarrow> int \<Rightarrow> error + (reply \<times> 'n emission list \<times> 'n store)" where
  "upload_participant_image A sessions sock sessionId img desc nm now =
     (case sessions sessionId of
        None \<Rightarrow> Inr (ReplyFailure SessionNotFound, [], sessions)
      | Some s \<Rightarrow>
          if \<not> truthy (referenceImage s)
          then Inr (ReplyFailure ReferenceNotReady, [], sessions)
          else if length (participants s) \<ge> maxParticipants s
          then Inr (ReplyFailure SessionFull, [], sessions)
          else
            (case distance_to_reference A s desc of
               Inl e \<Rightarrow> Inl e
             | Inr distance \<Rightarrow>
                 let m = num_less A distance (threshold A);
                     p = participant_record sock nm img desc m distance now;
                     s' = s\<lparr>participants := participants s @ [p]\<rparr>
                 in Inr (ReplySuccess,
                         (Unicast sock,
                          VerificationResult m distance
                            (if m then referenceImage s else None) img)
                         # (if m then [(Room (adminId s), gallery_updated s')] else []),
                         sessions(sessionId \<mapsto> s'))))"

text \<open>
  \<open>disconnect\<close>. The handlers above also set attributes on the socket object
  (\<open>socket.sessionId\<close>, \<open>socket.isAdmin\<close>) and join rooms; these are not part of the
  store. Here the attribute \<open>socket.sessionId\<close> of the closing connection (\<open>None\<close> when
  unset; the empty string is falsy too) and whether the admin's connection is still
  registered (\<open>io.sockets.sockets.get\<close>) are inputs, so the model covers every value
  they can have.
\<close>

definition disconnect ::
  "'n store \<Rightarrow> socket_id \<Rightarrow> session_id option \<Rightarrow> bool \<Rightarrow> 'n emission list \<times> 'n store"
  where
  "disconnect sessions sock socketSessionId adminLive =
     (case socketSessionId of
        None \<Rightarrow> ([], sessions)
      | Some sessionId \<Rightarrow>
          if sessionId = [] then ([], sessions)
          else
          (case sessions sessionId of
             None \<Rightarrow> ([], sessions)
           | Some s \<Rightarrow>
               let (out, s') =
                     (if adminId s = sock
                      then ([(RoomExcept sessionId sock, AdminDisconnected)], s)
                      else
                        (let ps = filter (\<lambda>p. socketId p \<noteq> sock) (participants s)
                         in ([(Room (adminId s), ParticipantLeft (length ps))],
                             s\<lparr>participants := ps\<rparr>)))
               in if length (participants s') = 0 \<and> \<not> adminLive
                  then (out, (sessions(sessionId \<mapsto> s'))(sessionId := None))
                  else (out, sessions(sessionId \<mapsto> s'))))"

text \<open>
  The expiry sweep, run by \<open>setInterval\<close> every 60 seconds: \<open>||\<close> replaces a zero
  duration by 30 minutes.
\<close>

definition sessionDuration :: "'n session \<Rightarrow> int" where
  "sessionDuration s =
     (if durationMinutes s = 0 then 30 else durationMinutes s) * 60 * 1000"

definition sweep :: "int \<Rightarrow> 'n store \<Rightarrow> 'n store" where
  "sweep now sessions =
     (\<lambda>sessionId.
        case sessions sessionId of
          None \<Rightarrow> None
        | Some s \<Rightarrow> if now - createdAt s > sessionDuration s then None else Some s)"



section \<open>Runs of the server\<close>

datatype 'n request =
  CreateSession socket_id string "int option" int
  | JoinSession socket_id session_id
  | UploadReference socket_id session_id "string option" "'n list option"
  | UploadParticipant socket_id session_id string "'n list" "string option" int
  | Disconnect socket_id "session_id option" bool
  | Sweep int

text \<open>One request: the events it emits and the store it leaves. A handler that throws
  leaves the store as it was and emits nothing.\<close>

fun step :: "'n arith \<Rightarrow> 'n store \<Rightarrow> 'n request \<Rightarrow> 'n emission list \<times> 'n store" where
  "step A st (CreateSession sock uuid dur now) =
     ([], snd (create_session st sock uuid dur now))"
| "step A st (JoinSession sock sessionId) = snd (join_session st sock sessionId)"
| "step A st (UploadReference sock sessionId img desc) =
     ([], snd (upload_reference_image st sock sessionId img desc))"
| "step A st (UploadParticipant sock sessionId img desc nm now) =
     (case upload_participant_image A st sock sessionId img desc nm now of
        Inl e \<Rightarrow> ([], st)
      | Inr (r, out, st') \<Rightarrow> (out, st'))"
| "step A st (Disconnect sock socketSessionId adminLive) =
     disconnect st sock socketSessionId adminLive"
| "step A st (Sweep now) = ([], sweep now st)"

fun run :: "'n arith \<Rightarrow> 'n store \<Rightarrow> 'n request list \<Rightarrow> 'n emission list \<times> 'n store" where
  "run A st [] = ([], st)"
| "run A st (r # rs) =
     (let (out, st') = step A st r; (outs, st'') = run A st' rs in (out @ outs, st''))"

section \<open>Auxiliary notions for the properties\<close>

text \<open>
  The shape of the strings \<open>uuidv4()\<close> returns: 36 characters, lower-case hexadecimal
  digits in the groups 8-4-4-4-12, separated by hyphens.
\<close>

definition is_hex_lower :: "char \<Rightarrow> bool" where
  "is_hex_lower c = (c \<in> set ''0123456789abcdef'')"

definition is_hex_upper :: "char \<Rightarrow> bool" where
  "is_hex_upper c = (c \<in> set ''0123456789ABCDEF'')"

definition well_formed_uuid :: "string \<Rightarrow> bool" where
  "well_formed_uuid u =
     (length u = 36
      \<and> list_all is_hex_lower (take 8 u) \<and> u ! 8 = CHR ''-''
      \<and> list_all is_hex_lower (take 4 (drop 9 u)) \<and> u ! 13 = CHR ''-''
      \<and> list_all is_hex_lower (take 4 (drop 14 u)) \<and> u ! 18 = CHR ''-''
      \<and> list_all is_hex_lower (take 4 (drop 19 u)) \<and> u ! 23 = CHR ''-''
      \<and> list_all is_hex_lower (drop 24 u))"

text \<open>
  What the upload handler establishes for every record it stores: the flag \<open>matched\<close>
  is the outcome of the comparison of the recorded distance with the threshold.
\<close>

definition participants_consistent :: "'n arith \<Rightarrow> 'n session \<Rightarrow> bool" where
  "participants_consistent A s =
     list_all (\<lambda>p. matched p = num_less A (matchDistance p) (threshold A)) (participants s)"

definition store_ok :: "'n arith \<Rightarrow> 'n store \<Rightarrow> bool" where
  "store_ok A st = (\<forall>sessionId s. st sessionId = Some s \<longrightarrow> participants_consistent A s)"

text \<open>The gallery updates among a list of emissions.\<close>

fun galleries :: "'n emission list \<Rightarrow> 'n gallery_entry list list" where
  "galleries [] = []"
| "galleries ((t, GalleryUpdated es n c) # out) = es # galleries out"
| "galleries (x # out) = galleries out"

text \<open>The events sent to one connection alone, in order.\<close>

definition unicasts :: "socket_id \<Rightarrow> 'n emission list \<Rightarrow> 'n event list" where
  "unicasts sock out = map snd (filter (\<lambda>(t, e). t = Unicast sock) out)"


section \<open>Examples\<close>

text \<open>
  The examples use descriptors with the entries 0 and 1 only. On these values doubles
  compute without rounding (\<open>0 - 0 = 0\<close>, \<open>0 - 1 = -1\<close>, the squares 0 and 1, the sums
  0 and 1, the square roots 0 and 1), so the exact operations on the reals give there
  what the code gives; \<open>0.6\<close> is the value of the double nearest to it.
\<close>

definition example_arith :: "real arith" where
  "example_arith =
     \<lparr> num_sub = (\<lambda>x y. x - y), num_pow2 = (\<lambda>x. x\<^sup>2), num_add = (\<lambda>x y. x + y),
       num_sqrt = sqrt, num_less = (\<lambda>x y. x < y), num_zero = 0,
       num_0_6 = 5404319552844595 / 9007199254740992 \<rparr>"

text \<open>
  A session of the admin \<open>admin\<close> whose reference (image \<open>ref\<close>, descriptor \<open>[0]\<close>) is
  uploaded, and the store that holds it alone; a record of the connection \<open>p1\<close>.
\<close>

definition example_session :: "real session" where
  "example_session =
     (new_session ''ABCDEF12'' ''admin'' 30 0)
       \<lparr>referenceImage := Some ''ref'', referenceFaceDescriptor := Some [0]\<rparr>"

definition example_store :: "real store" where
  "example_store = Map.empty(''ABCDEF12'' \<mapsto> example_session)"

definition example_participant :: "real participant" where
  "example_participant =
     \<lparr> socketId = ''p1'', name = ''Anonymous'', image_p = ''img'', faceDescriptor = [0],
       matched = True, matchDistance = 0, timestamp = 1 \<rparr>"



section \<open>What the distance evaluator does in every arithmetic\<close>

text \<open>
  Whatever the arithmetic, \<open>euclideanDistance\<close> throws exactly when the two lengths
  differ, and otherwise returns the square root the arithmetic gives for the sum the loop
  accumulated.
\<close>

lemma euclideanDistance_lengths:
  "euclideanDistance A arr1 arr2 =
     (if length arr1 = length arr2
      then Inr (num_sqrt A (euclid_loop A arr1 arr2 0 (num_zero A)))
      else Inl DimensionMismatch)"
  by (simp add: euclideanDistance_def)

lemma euclid_loop_single:
  "euclid_loop A [x] [y] 0 s = num_add A s (num_pow2 A (num_sub A x y))"
proof -
  have "euclid_loop A [x] [y] 0 s
      = euclid_loop A [x] [y] (Suc 0) (num_add A s (num_pow2 A (num_sub A x y)))"
    by (subst euclid_loop.simps) simp
  also have "\<dots> = num_add A s (num_pow2 A (num_sub A x y))"
    by (subst euclid_loop.simps) simp
  finally show ?thesis .
qed

lemma distance_same: "euclideanDistance example_arith [0] [0] = Inr 0"
  by (simp add: euclideanDistance_def euclid_loop_single example_arith_def)

lemma distance_unit: "euclideanDistance example_arith [0] [1] = Inr 1"
  by (simp add: euclideanDistance_def euclid_loop_single example_arith_def)

lemma example_threshold:
  "num_less example_arith 0 (threshold example_arith)"
  "\<not> num_less example_arith 1 (threshold example_arith)"
  by (simp_all add: example_arith_def threshold_def)

section \<open>Session creation\<close>

lemma toUpperCase_hex_digits:
  "list_all (\<lambda>c. is_hex_upper (toUpperCase_char c)) ''0123456789abcdef''"
  by code_simp

lemma toUpperCase_hex:
  assumes "is_hex_lower c"
  shows "is_hex_upper (toUpperCase_char c)"
proof -
  from assms have "c \<in> set ''0123456789abcdef''"
    by (simp only: is_hex_lower_def)
  with toUpperCase_hex_digits show ?thesis
    by (simp only: list_all_iff)
qed

lemma toUpperCase_all_hex:
  "list_all is_hex_lower s \<Longrightarrow> list_all is_hex_upper (toUpperCase s)"
  by (induction s) (simp_all add: toUpperCase_def toUpperCase_hex)

text \<open>
  C7, as the code has it. For a UUID of the shape the generator returns, the session
  identifier is the UUID's first eight characters in upper case: eight characters among
  \<open>0..9\<close>, \<open>A..F\<close>. The handler does not look the identifier up before it stores the
  new session: the store after the call is the store before with the fresh session put
  under that identifier, every other entry untouched, and a session already stored under
  it replaced.
\<close>

theorem create_session_identifier:
  assumes "well_formed_uuid uuid"
  shows "length (toUpperCase (take 8 uuid)) = 8
       \<and> list_all is_hex_upper (toUpperCase (take 8 uuid))
       \<and> create_session st sock uuid dur now =
           (ReplySession (toUpperCase (take 8 uuid)) True,
            st(toUpperCase (take 8 uuid) \<mapsto>
                 new_session (toUpperCase (take 8 uuid)) sock
                   (case dur of None \<Rightarrow> 30 | Some d \<Rightarrow> d) now))"
proof -
  from assms have len: "length uuid = 36" and hex: "list_all is_hex_lower (take 8 uuid)"
    by (simp_all add: well_formed_uuid_def)
  from len have "length (toUpperCase (take 8 uuid)) = 8"
    by (simp add: toUpperCase_def)
  moreover from hex have "list_all is_hex_upper (toUpperCase (take 8 uuid))"
    by (rule toUpperCase_all_hex)
  ultimately show ?thesis
    by (simp add: create_session_def Let_def)
qed

lemma example_uuid: "well_formed_uuid ''abcdef12-3456-4789-8abc-def012345678''"
  by code_simp

lemma example_id: "toUpperCase ''abcdef12'' = ''ABCDEF12''"
  by code_simp

theorem create_session_identifier_witness:
  "well_formed_uuid ''abcdef12-3456-4789-8abc-def012345678''
   \<and> create_session (Map.empty :: real store) ''admin''
         ''abcdef12-3456-4789-8abc-def012345678'' None 0 =
       (ReplySession ''ABCDEF12'' True,
        Map.empty(''ABCDEF12'' \<mapsto> new_session ''ABCDEF12'' ''admin'' 30 0))"
  using create_session_identifier
    [OF example_uuid, of "Map.empty :: real store" "''admin''" None 0]
  by (simp add: example_uuid example_id)

text \<open>
  C7 as stated fails: a session with an uploaded reference is stored under
  \<open>ABCDEF12\<close>; a second creation whose UUID starts with \<open>abcdef12\<close> leaves a fresh
  session of another admin there, without reference.
\<close>

theorem create_session_overwrites:
  "example_store ''ABCDEF12'' = Some example_session
   \<and> referenceImage example_session = Some ''ref''
   \<and> well_formed_uuid ''abcdef12-3456-4789-8abc-def012345678''
   \<and> snd (create_session example_store ''other'' ''abcdef12-3456-4789-8abc-def012345678'' None 99)
        ''ABCDEF12'' = Some (new_session ''ABCDEF12'' ''other'' 30 99)
   \<and> referenceImage (new_session ''ABCDEF12'' ''other'' 30 99) = None"
  by (simp add: example_uuid example_id create_session_def Let_def example_store_def
      example_session_def new_session_def)

text \<open>
  C8, as the code has it. Session creation never fails and checks nothing about the
  duration: the session it stores carries the requested duration as it came, and 30
  when the request has none.
\<close>

theorem create_session_duration:
  "fst (create_session st sock uuid dur now) = ReplySession (toUpperCase (take 8 uuid)) True
   \<and> map_option durationMinutes
        (snd (create_session st sock uuid dur now) (toUpperCase (take 8 uuid)))
       = Some (case dur of None \<Rightarrow> 30 | Some d \<Rightarrow> d)"
  by (simp add: create_session_def Let_def new_session_def)

text \<open>
  C8 as stated fails: a requested duration of 100000 minutes is acknowledged with
  success and stored as 100000.
\<close>

theorem create_session_out_of_range:
  "fst (create_session (Map.empty :: real store) ''admin''
          ''abcdef12-3456-4789-8abc-def012345678'' (Some 100000) 0)
     = ReplySession ''ABCDEF12'' True
   \<and> map_option durationMinutes
       (snd (create_session (Map.empty :: real store) ''admin''
               ''abcdef12-3456-4789-8abc-def012345678''
               (Some 100000) 0) ''ABCDEF12'') = Some 100000"
  by (simp add: example_id create_session_def Let_def new_session_def)

section \<open>Reference upload and the guard on participant uploads\<close>

text \<open>
  C4. In a session whose reference image has not been uploaded, an upload of a
  participant image fails with \<open>ReferenceNotReady\<close>: nothing is emitted, no record is
  added and the store is the one before. This holds for every caller, so for every
  caller that is not the owner.
\<close>

theorem upload_before_reference:
  assumes "st sessionId = Some s" and "referenceImage s = None"
  shows "upload_participant_image A st sock sessionId img desc nm now
           = Inr (ReplyFailure ReferenceNotReady, [], st)"
  using assms by (simp add: upload_participant_image_def truthy_def)

theorem upload_before_reference_witness:
  "upload_participant_image example_arith
       (Map.empty(''ABCDEF12'' \<mapsto> new_session ''ABCDEF12'' ''admin'' 30 0))
       ''p1'' ''ABCDEF12'' ''img'' [0] None 5
     = Inr (ReplyFailure ReferenceNotReady, [],
            Map.empty(''ABCDEF12'' \<mapsto> new_session ''ABCDEF12'' ''admin'' 30 0))"
  using upload_before_reference
    [of "Map.empty(''ABCDEF12'' \<mapsto> new_session ''ABCDEF12'' ''admin'' 30 0)" "''ABCDEF12''"
        "new_session ''ABCDEF12'' ''admin'' 30 0" example_arith "''p1''" "''img''" "[0]" None 5]
  by (simp add: new_session_def)

text \<open>
  C5. In an existing session, a caller other than the owner gets \<open>NotAuthorized\<close> from
  the reference upload, whatever the rest of the session, and the store (so the reference
  image and descriptor) stays as it was; the owner's upload succeeds and puts the new
  image and descriptor in place of whatever was there.
\<close>

theorem upload_reference_authorization:
  assumes "st sessionId = Some s"
  shows "(sock \<noteq> adminId s \<longrightarrow>
            upload_reference_image st sock sessionId img desc = (ReplyFailure NotAuthorized, st))
       \<and> (sock = adminId s \<longrightarrow>
            upload_reference_image st sock sessionId img desc
              = (ReplySuccess,
                 st(sessionId \<mapsto> s\<lparr>referenceImage := img, referenceFaceDescriptor := desc\<rparr>)))"
  using assms by (auto simp: upload_reference_image_def)

theorem upload_reference_authorization_witness:
  "upload_reference_image example_store ''p1'' ''ABCDEF12'' (Some ''x'') (Some [1])
     = (ReplyFailure NotAuthorized, example_store)
   \<and> upload_reference_image example_store ''admin'' ''ABCDEF12'' (Some ''x'') (Some [1])
     = (ReplySuccess,
        example_store(''ABCDEF12'' \<mapsto>
          example_session\<lparr>referenceImage := Some ''x'', referenceFaceDescriptor := Some [1]\<rparr>))"
  using upload_reference_authorization
      [of example_store "''ABCDEF12''" example_session "''p1''" "Some ''x''" "Some [1]"]
    upload_reference_authorization
      [of example_store "''ABCDEF12''" example_session "''admin''" "Some ''x''" "Some [1]"]
  by (simp add: example_store_def example_session_def new_session_def)

section \<open>Gallery updates\<close>

lemma upload_participant_accepted:
  assumes "upload_participant_image A st sock sessionId img desc nm now
             = Inr (ReplySuccess, out, st')"
  obtains s d where "st sessionId = Some s" and "truthy (referenceImage s)"
    and "length (participants s) < maxParticipants s"
    and "distance_to_reference A s desc = Inr d"
    and "out = (Unicast sock,
                VerificationResult (num_less A d (threshold A)) d
                  (if num_less A d (threshold A) then referenceImage s else None) img)
               # (if num_less A d (threshold A)
                  then [(Room (adminId s),
                         gallery_updated (s\<lparr>participants := participants s @
                           [participant_record sock nm img desc
                              (num_less A d (threshold A)) d now]\<rparr>))]
                  else [])"
    and "st' = st(sessionId \<mapsto> s\<lparr>participants := participants s @
                   [participant_record sock nm img desc (num_less A d (threshold A)) d now]\<rparr>)"
  using assms
  by (auto simp: upload_participant_image_def Let_def
      split: option.splits if_splits sum.splits)

lemma upload_participant_rejected:
  assumes "upload_participant_image A st sock sessionId img desc nm now
             = Inr (ReplyFailure e, out, st')"
  shows "out = [] \<and> st' = st"
  using assms
  by (auto simp: upload_participant_image_def Let_def
      split: option.splits if_splits sum.splits)

lemma reply_cases:
  obtains "r = ReplySuccess" | sessionId a where "r = ReplySession sessionId a"
  | e where "r = ReplyFailure e"
  by (cases r) auto

lemma upload_participant_no_session_reply:
  "upload_participant_image A st sock sessionId img desc nm now
     \<noteq> Inr (ReplySession i a, out, st')"
  by (auto simp: upload_participant_image_def Let_def
      split: option.splits if_splits sum.splits)

lemma upload_participant_gallery:
  assumes up: "upload_participant_image A st sock sessionId img desc nm now = Inr (r, out, st')"
    and mem: "(tgt, GalleryUpdated entries n cnt) \<in> set out"
  shows "\<exists>s'. st' sessionId = Some s' \<and> tgt = Room (adminId s')
           \<and> entries = map project (filter matched (participants s'))
           \<and> cnt = length entries \<and> cnt \<le> n \<and> n = length (participants s')"
proof (cases r rule: reply_cases)
  case 1
  with up obtain s d where out: "out = (Unicast sock,
                VerificationResult (num_less A d (threshold A)) d
                  (if num_less A d (threshold A) then referenceImage s else None) img)
               # (if num_less A d (threshold A)
                  then [(Room (adminId s),
                         gallery_updated (s\<lparr>participants := participants s @
                           [participant_record sock nm img desc
                              (num_less A d (threshold A)) d now]\<rparr>))]
                  else [])"
    and st': "st' = st(sessionId \<mapsto> s\<lparr>participants := participants s @
                   [participant_record sock nm img desc (num_less A d (threshold A)) d now]\<rparr>)"
    by (auto elim: upload_participant_accepted)
  let ?s' = "s\<lparr>participants := participants s @
                   [participant_record sock nm img desc (num_less A d (threshold A)) d now]\<rparr>"
  from mem out have tgt: "tgt = Room (adminId s)"
    and ev: "GalleryUpdated entries n cnt = gallery_updated ?s'"
    by (auto split: if_splits)
  from ev have e: "entries = map project (filter matched (participants ?s'))"
    and n: "n = length (participants ?s')"
    and c: "cnt = length (filter matched (participants ?s'))"
    by (simp_all add: gallery_updated_def)
  show ?thesis
  proof (intro exI [of _ ?s'] conjI)
    show "st' sessionId = Some ?s'" using st' by simp
    show "tgt = Room (adminId ?s')" using tgt by simp
    show "entries = map project (filter matched (participants ?s'))" by (fact e)
    show "cnt = length entries" unfolding c e by (simp only: length_map)
    show "cnt \<le> n" unfolding c n by (rule length_filter_le)
    show "n = length (participants ?s')" by (fact n)
  qed
next
  case (2 i a)
  with up show ?thesis by (simp add: upload_participant_no_session_reply)
next
  case (3 e)
  with up mem show ?thesis by (auto dest: upload_participant_rejected)
qed

text \<open>Only the upload of a participant image emits gallery updates.\<close>

lemma step_gallery_source:
  assumes "step A st r = (out, st')" and "(tgt, GalleryUpdated entries n cnt) \<in> set out"
  obtains sock sessionId img desc nm now a where
    "r = UploadParticipant sock sessionId img desc nm now"
    "upload_participant_image A st sock sessionId img desc nm now = Inr (a, out, st')"
proof (cases r)
  case (UploadParticipant sock sessionId img desc nm now)
  with assms obtain a where
    "upload_participant_image A st sock sessionId img desc nm now = Inr (a, out, st')"
    by (auto split: sum.splits)
  with UploadParticipant show ?thesis by (rule that)
next
  case (JoinSession sock sessionId)
  with assms show ?thesis
    by (auto simp: join_session_def split: option.splits if_splits)
next
  case (Disconnect sock ss live)
  with assms show ?thesis
    by (auto simp: disconnect_def Let_def split: option.splits if_splits)
qed (use assms in auto)

text \<open>
  C10. Whatever request the server handles, a \<open>gallery-updated\<close> event is emitted only
  by the upload of a participant image to a session \<open>sessionId\<close>. With \<open>s'\<close> the state
  of that session after the request, which is its state when the event is built, the
  event goes to the admin of \<open>s'\<close>; its list has, in order, one entry for each record of
  \<open>s'\<close> whose \<open>matched\<close> flag is set and no other entry, and the entry carries that
  record's name, image, distance and timestamp; \<open>matchedCount\<close> is the length of that
  list, \<open>totalParticipants\<close> is the length of the whole participants list of \<open>s'\<close>, and
  \<open>matchedCount\<close> is at most \<open>totalParticipants\<close>.
\<close>

theorem gallery_update_contents:
  assumes "step A st r = (out, st')"
    and "(tgt, GalleryUpdated entries n cnt) \<in> set out"
  shows "\<exists>sock sessionId img desc nm now s'.
           r = UploadParticipant sock sessionId img desc nm now
           \<and> st' sessionId = Some s' \<and> tgt = Room (adminId s')
           \<and> entries =
               map (\<lambda>p. \<lparr> entry_name = name p, entry_image = image_p p,
                          entry_matchDistance = matchDistance p,
                          entry_timestamp = timestamp p \<rparr>)
                 (filter (\<lambda>p. matched p) (participants s'))
           \<and> cnt = length entries \<and> cnt \<le> n \<and> n = length (participants s')"
proof -
  from assms obtain sock sessionId img desc nm now a where
    r: "r = UploadParticipant sock sessionId img desc nm now"
    and up: "upload_participant_image A st sock sessionId img desc nm now = Inr (a, out, st')"
    by (rule step_gallery_source)
  from upload_participant_gallery [OF up assms(2)] obtain s' where
    s': "st' sessionId = Some s'" and tgt: "tgt = Room (adminId s')"
    and e: "entries = map project (filter matched (participants s'))"
    and c: "cnt = length entries" "cnt \<le> n" "n = length (participants s')"
    by blast
  have "map project (filter matched (participants s')) =
        map (\<lambda>p. \<lparr> entry_name = name p, entry_image = image_p p,
                          entry_matchDistance = matchDistance p,
                          entry_timestamp = timestamp p \<rparr>)
                 (filter (\<lambda>p. matched p) (participants s'))"
    by (simp add: project_def)
  with e have e': "entries =
        map (\<lambda>p. \<lparr> entry_name = name p, entry_image = image_p p,
                          entry_matchDistance = matchDistance p,
                          entry_timestamp = timestamp p \<rparr>)
                 (filter (\<lambda>p. matched p) (participants s'))"
    by simp
  from r s' tgt e' c show ?thesis by blast
qed

lemma example_upload:
  "step example_arith example_store (UploadParticipant ''p1'' ''ABCDEF12'' ''img'' [0] None 1) =
     ([(Unicast ''p1'', VerificationResult True 0 (Some ''ref'') ''img''),
       (Room ''admin'',
        GalleryUpdated
          [\<lparr> entry_name = ''Anonymous'', entry_image = ''img'', entry_matchDistance = 0,
             entry_timestamp = 1 \<rparr>] 1 1)],
      example_store(''ABCDEF12'' \<mapsto> example_session\<lparr>participants := [example_participant]\<rparr>))"
  by (simp add: upload_participant_image_def example_store_def example_session_def
      new_session_def truthy_def distance_to_reference_def distance_same example_threshold
      display_name_def gallery_updated_def example_participant_def participant_record_def
      project_def Let_def)

theorem gallery_update_contents_witness:
  "step example_arith example_store (UploadParticipant ''p1'' ''ABCDEF12'' ''img'' [0] None 1) =
     ([(Unicast ''p1'', VerificationResult True 0 (Some ''ref'') ''img''),
       (Room ''admin'',
        GalleryUpdated
          [\<lparr> entry_name = ''Anonymous'', entry_image = ''img'', entry_matchDistance = 0,
             entry_timestamp = 1 \<rparr>] 1 1)],
      example_store(''ABCDEF12'' \<mapsto> example_session\<lparr>participants := [example_participant]\<rparr>))
   \<and> (\<exists>sock sessionId img desc nm now s'.
        UploadParticipant ''p1'' ''ABCDEF12'' ''img'' [0::real] None 1
          = UploadParticipant sock sessionId img desc nm now
        \<and> (example_store(''ABCDEF12'' \<mapsto> example_session\<lparr>participants := [example_participant]\<rparr>))
          sessionId = Some s'
        \<and> Room ''admin'' = Room (adminId s')
        \<and> [\<lparr> entry_name = ''Anonymous'', entry_image = ''img'', entry_matchDistance = 0,
             entry_timestamp = 1 \<rparr>]
            = map (\<lambda>p. \<lparr> entry_name = name p, entry_image = image_p p,
                          entry_matchDistance = matchDistance p,
                          entry_timestamp = timestamp p \<rparr>)
                 (filter (\<lambda>p. matched p) (participants s'))
        \<and> (1::nat) = length [\<lparr> entry_name = ''Anonymous'', entry_image = ''img'',
             entry_matchDistance = (0::real), entry_timestamp = 1 \<rparr>]
        \<and> (1::nat) \<le> 1
        \<and> 1 = length (participants s'))"
proof -
  have mem: "(Room ''admin'',
        GalleryUpdated
          [\<lparr> entry_name = ''Anonymous'', entry_image = ''img'', entry_matchDistance = (0::real),
             entry_timestamp = 1 \<rparr>] 1 1)
      \<in> set [(Unicast ''p1'', VerificationResult True 0 (Some ''ref'') ''img''),
           (Room ''admin'',
        GalleryUpdated
          [\<lparr> entry_name = ''Anonymous'', entry_image = ''img'', entry_matchDistance = 0,
             entry_timestamp = 1 \<rparr>] 1 1)]"
    by simp
  from gallery_update_contents [OF example_upload mem] example_upload
  show ?thesis by (intro conjI)
qed

text \<open>
  C2 on the code: whatever the arithmetic and the descriptors, two accepted uploads from
  the connection \<open>p1\<close> to a session with a reference leave two records with the socket
  id \<open>p1\<close> in the session. The handler pushes and never looks for a record of the
  caller.
\<close>

theorem second_upload_appends:
  "map socketId (participants (the (snd (run A
       (Map.empty(''ABCDEF12'' \<mapsto>
          (new_session ''ABCDEF12'' ''admin'' 30 0)
            \<lparr>referenceImage := Some ''ref'', referenceFaceDescriptor := Some [x]\<rparr>))
       [UploadParticipant ''p1'' ''ABCDEF12'' ''img'' [y] None 1,
        UploadParticipant ''p1'' ''ABCDEF12'' ''img2'' [y] None 2]) ''ABCDEF12'')))
     = [''p1'', ''p1'']"
  by (simp add: upload_participant_image_def new_session_def truthy_def
      distance_to_reference_def euclideanDistance_def display_name_def gallery_updated_def
      participant_record_def Let_def)

text \<open>
  C3 on the code: whatever the arithmetic and the descriptors, in a session with ten
  records, all of them records of the connection \<open>p1\<close>, an upload from \<open>p1\<close> is answered
  \<open>Session is full\<close> and changes nothing.
\<close>

theorem full_session_rejects_existing_participant:
  "upload_participant_image A
     (Map.empty(''ABCDEF12'' \<mapsto>
        (new_session ''ABCDEF12'' ''admin'' 30 0)
          \<lparr>referenceImage := Some ''ref'', referenceFaceDescriptor := Some [x],
           participants := replicate 10 (participant_record ''p1'' None ''img'' [y] m d 1)\<rparr>))
     ''p1'' ''ABCDEF12'' ''img'' [y] None 2
   = Inr (ReplyFailure SessionFull, [],
       Map.empty(''ABCDEF12'' \<mapsto>
        (new_session ''ABCDEF12'' ''admin'' 30 0)
          \<lparr>referenceImage := Some ''ref'', referenceFaceDescriptor := Some [x],
           participants := replicate 10 (participant_record ''p1'' None ''img'' [y] m d 1)\<rparr>))
   \<and> ''p1'' \<in> socketId ` set (replicate 10 (participant_record ''p1'' None ''img'' [y] m d 1))"
  by (simp add: upload_participant_image_def new_session_def truthy_def
      participant_record_def)

section \<open>Selective disclosure\<close>

text \<open>
  The consistency of the stored records is an invariant: it holds of the empty store and
  every handler keeps it.
\<close>

lemma store_ok_empty: "store_ok A Map.empty"
  by (simp add: store_ok_def)

lemma store_okD: "store_ok A st \<Longrightarrow> st sessionId = Some s \<Longrightarrow> participants_consistent A s"
  by (simp add: store_ok_def)

lemma store_ok_update:
  "store_ok A st \<Longrightarrow> participants_consistent A s \<Longrightarrow> store_ok A (st(sessionId \<mapsto> s))"
  by (simp add: store_ok_def)

lemma store_ok_delete: "store_ok A st \<Longrightarrow> store_ok A (st(sessionId := None))"
  by (simp add: store_ok_def)

lemma store_ok_sweep: "store_ok A st \<Longrightarrow> store_ok A (sweep now st)"
  by (auto simp: store_ok_def sweep_def split: option.splits if_splits)

lemma create_session_ok:
  "store_ok A st \<Longrightarrow> store_ok A (snd (create_session st sock uuid dur now))"
  by (simp add: create_session_def Let_def store_ok_update participants_consistent_def
      new_session_def)

lemma upload_reference_ok:
  "store_ok A st \<Longrightarrow> store_ok A (snd (upload_reference_image st sock sessionId img desc))"
  by (auto simp: upload_reference_image_def participants_consistent_def
      intro!: store_ok_update dest: store_okD split: option.splits)

lemma upload_participant_ok:
  assumes ok: "store_ok A st"
    and up: "upload_participant_image A st sock sessionId img desc nm now = Inr (r, out, st')"
  shows "store_ok A st'"
proof (cases r rule: reply_cases)
  case 1
  with up obtain s d where s: "st sessionId = Some s"
    and st': "st' = st(sessionId \<mapsto> s\<lparr>participants := participants s @
                   [participant_record sock nm img desc (num_less A d (threshold A)) d now]\<rparr>)"
    by (auto elim: upload_participant_accepted)
  from ok s have "participants_consistent A s" by (rule store_okD)
  then have "participants_consistent A (s\<lparr>participants := participants s @
                   [participant_record sock nm img desc (num_less A d (threshold A)) d now]\<rparr>)"
    by (simp add: participants_consistent_def participant_record_def)
  with ok show ?thesis unfolding st' by (rule store_ok_update)
next
  case (2 i a)
  with up show ?thesis by (simp add: upload_participant_no_session_reply)
next
  case (3 e)
  with up ok show ?thesis by (auto dest: upload_participant_rejected)
qed

lemma disconnect_ok:
  assumes "store_ok A st"
  shows "store_ok A (snd (disconnect st sock ss live))"
proof (cases ss)
  case None
  with assms show ?thesis by (simp add: disconnect_def)
next
  case (Some sessionId)
  show ?thesis
  proof (cases "st sessionId")
    case None
    with Some assms show ?thesis by (simp add: disconnect_def)
  next
    case (Some s)
    from assms Some have c: "participants_consistent A s" by (rule store_okD)
    then have c': "participants_consistent A
        (s\<lparr>participants := filter (\<lambda>p. socketId p \<noteq> sock) (participants s)\<rparr>)"
      by (simp add: participants_consistent_def list_all_iff)
    from assms c c' Some \<open>ss = Some sessionId\<close> show ?thesis
      by (auto simp: disconnect_def Let_def store_ok_update store_ok_delete
          simp del: fun_upd_apply)
  qed
qed

lemma step_ok:
  assumes "store_ok A st" and "step A st r = (out, st')"
  shows "store_ok A st'"
proof (cases r)
  case (CreateSession sock uuid dur now)
  with assms create_session_ok [of A st sock uuid dur now] show ?thesis by simp
next
  case (JoinSession sock sessionId)
  with assms show ?thesis by (auto simp: join_session_def split: option.splits if_splits)
next
  case (UploadReference sock sessionId img desc)
  with assms upload_reference_ok [of A st sock sessionId img desc] show ?thesis by simp
next
  case (UploadParticipant sock sessionId img desc nm now)
  with assms show ?thesis
    by (auto split: sum.splits dest: upload_participant_ok)
next
  case (Disconnect sock ss live)
  with assms disconnect_ok [of A st sock ss live] show ?thesis by simp
next
  case (Sweep now)
  with assms show ?thesis by (auto simp: store_ok_sweep)
qed

lemma run_ok: "store_ok A st \<Longrightarrow> run A st rs = (outs, st') \<Longrightarrow> store_ok A st'"
proof (induction rs arbitrary: st outs)
  case Nil
  then show ?case by simp
next
  case (Cons r rs)
  obtain out st1 where s: "step A st r = (out, st1)" by (cases "step A st r")
  obtain outs1 st2 where r: "run A st1 rs = (outs1, st2)" by (cases "run A st1 rs")
  from Cons.prems(1) s have ok1: "store_ok A st1" by (rule step_ok)
  from Cons.prems(2) s r have "st2 = st'" by simp
  with r have "run A st1 rs = (outs1, st')" by simp
  with ok1 show ?case by (rule Cons.IH)
qed

text \<open>
  In a consistent session the distance of every gallery entry compares as less than the
  threshold.
\<close>

lemma consistent_gallery_below:
  assumes "participants_consistent A s"
  shows "list_all (\<lambda>e. num_less A (entry_matchDistance e) (threshold A))
           (map project (filter matched (participants s)))"
  using assms by (auto simp: participants_consistent_def list_all_iff project_def)

lemma step_gallery_below:
  assumes ok: "store_ok A st" and st: "step A st r = (out, st')"
    and mem: "(tgt, GalleryUpdated entries n cnt) \<in> set out"
  shows "list_all (\<lambda>e. num_less A (entry_matchDistance e) (threshold A)) entries"
proof -
  from st mem obtain sock sessionId img desc nm now a where
    up: "upload_participant_image A st sock sessionId img desc nm now = Inr (a, out, st')"
    by (rule step_gallery_source)
  from upload_participant_gallery [OF up mem] obtain s' where
    s': "st' sessionId = Some s'"
    and e: "entries = map project (filter matched (participants s'))"
    by blast
  from ok st have "store_ok A st'" by (rule step_ok)
  from this s' have "participants_consistent A s'" by (rule store_okD)
  then show ?thesis unfolding e by (rule consistent_gallery_below)
qed

lemma galleries_append: "galleries (xs @ ys) = galleries xs @ galleries ys"
  by (induction xs rule: galleries.induct) simp_all

lemma galleries_mem:
  "es \<in> set (galleries out) \<Longrightarrow> \<exists>tgt n cnt. (tgt, GalleryUpdated es n cnt) \<in> set out"
  by (induction out rule: galleries.induct) auto

lemma step_galleries_below:
  assumes "store_ok A st"
  shows "list_all (list_all (\<lambda>e. num_less A (entry_matchDistance e) (threshold A)))
           (galleries (fst (step A st r)))"
proof -
  obtain out st' where s: "step A st r = (out, st')" by (cases "step A st r")
  have "list_all (\<lambda>e. num_less A (entry_matchDistance e) (threshold A)) es"
    if "es \<in> set (galleries out)" for es
  proof -
    from that obtain tgt n cnt where "(tgt, GalleryUpdated es n cnt) \<in> set out"
      by (auto dest: galleries_mem)
    with assms s show ?thesis by (rule step_gallery_below)
  qed
  with s show ?thesis by (simp add: list_all_iff)
qed

lemma run_galleries_below:
  "store_ok A st \<Longrightarrow>
   list_all (list_all (\<lambda>e. num_less A (entry_matchDistance e) (threshold A)))
     (galleries (fst (run A st rs)))"
proof (induction rs arbitrary: st)
  case Nil
  show ?case by simp
next
  case (Cons r rs)
  obtain out st1 where s: "step A st r = (out, st1)" by (cases "step A st r")
  obtain outs1 st2 where r: "run A st1 rs = (outs1, st2)" by (cases "run A st1 rs")
  from Cons.prems s have ok1: "store_ok A st1" by (rule step_ok)
  from step_galleries_below [OF Cons.prems, of r] s
  have a: "list_all (list_all (\<lambda>e. num_less A (entry_matchDistance e) (threshold A)))
      (galleries out)" by simp
  from Cons.IH [OF ok1] r
  have b: "list_all (list_all (\<lambda>e. num_less A (entry_matchDistance e) (threshold A)))
      (galleries outs1)" by simp
  from a b s r show ?case by (simp add: galleries_append)
qed

lemma truthy_not_None: "truthy v \<Longrightarrow> v \<noteq> None"
  by (cases v) (simp_all add: truthy_def)

text \<open>
  C1. Take a store in which every record's \<open>matched\<close> flag is the outcome of comparing
  its distance with the threshold (every store the server can reach, by
  \<open>store_ok_empty\<close> and \<open>run_ok\<close>) and an upload that the handler accepts. Then the session
  has a reference image and a reference descriptor, the distance \<open>d\<close> is what the
  distance evaluator returns for that descriptor and the uploaded one, and the caller is
  sent exactly one event: the verification result with \<open>matched = (d < threshold)\<close>, the
  distance, and the reference image if \<open>d < threshold\<close> and \<open>null\<close> otherwise. So the
  result carries the reference image if and only if \<open>matched\<close> is true. When
  \<open>d < threshold\<close> is false the upload emits no gallery update, and whatever requests
  follow, no gallery update ever lists the entry of the record stored for this upload.
  All this holds whatever the arithmetic computes.
\<close>

theorem disclosure_asymmetry:
  assumes ok: "store_ok A st"
    and up: "upload_participant_image A st sock sessionId img desc nm now
               = Inr (ReplySuccess, out, st')"
  shows "\<exists>s ref d.
           st sessionId = Some s \<and> referenceFaceDescriptor s = Some ref
           \<and> euclideanDistance A ref desc = Inr d
           \<and> referenceImage s \<noteq> None
           \<and> unicasts sock out =
               [VerificationResult (num_less A d (threshold A)) d
                  (if num_less A d (threshold A) then referenceImage s else None) img]
           \<and> st' = st(sessionId \<mapsto> s\<lparr>participants := participants s @
                       [participant_record sock nm img desc
                          (num_less A d (threshold A)) d now]\<rparr>)
           \<and> (\<not> num_less A d (threshold A) \<longrightarrow>
                 galleries out = []
                 \<and> (\<forall>rs. list_all
                       (\<lambda>es. project (participant_record sock nm img desc False d now)
                               \<notin> set es)
                       (galleries (fst (run A st' rs)))))"
proof -
  from up obtain s d where s: "st sessionId = Some s" and t: "truthy (referenceImage s)"
    and dist: "distance_to_reference A s desc = Inr d"
    and out: "out = (Unicast sock,
                VerificationResult (num_less A d (threshold A)) d
                  (if num_less A d (threshold A) then referenceImage s else None) img)
               # (if num_less A d (threshold A)
                  then [(Room (adminId s),
                         gallery_updated (s\<lparr>participants := participants s @
                           [participant_record sock nm img desc
                              (num_less A d (threshold A)) d now]\<rparr>))]
                  else [])"
    and st': "st' = st(sessionId \<mapsto> s\<lparr>participants := participants s @
                   [participant_record sock nm img desc (num_less A d (threshold A)) d now]\<rparr>)"
    by (rule upload_participant_accepted)
  from dist obtain ref where ref: "referenceFaceDescriptor s = Some ref"
    and d: "euclideanDistance A ref desc = Inr d"
    by (auto simp: distance_to_reference_def split: option.splits)
  from t have img: "referenceImage s \<noteq> None" by (rule truthy_not_None)
  from out have uni: "unicasts sock out =
               [VerificationResult (num_less A d (threshold A)) d
                  (if num_less A d (threshold A) then referenceImage s else None) img]"
    by (simp add: unicasts_def)
  from ok up have ok': "store_ok A st'" by (rule upload_participant_ok)
  have later: "list_all
         (\<lambda>es. project (participant_record sock nm img desc False d now) \<notin> set es)
         (galleries (fst (run A st' rs)))" if far: "\<not> num_less A d (threshold A)" for rs
  proof -
    have "project (participant_record sock nm img desc False d now) \<notin> set es"
      if "es \<in> set (galleries (fst (run A st' rs)))" for es
    proof
      assume mem: "project (participant_record sock nm img desc False d now) \<in> set es"
      from run_galleries_below [OF ok', of rs] that
      have "list_all (\<lambda>e. num_less A (entry_matchDistance e) (threshold A)) es"
        by (simp add: list_all_iff)
      with mem have "num_less A (entry_matchDistance
          (project (participant_record sock nm img desc False d now))) (threshold A)"
        by (simp add: list_all_iff)
      then have "num_less A d (threshold A)"
        by (simp add: project_def participant_record_def)
      with far show False by simp
    qed
    then show ?thesis by (simp add: list_all_iff)
  qed
  have none: "galleries out = []" if "\<not> num_less A d (threshold A)"
    using that out by simp
  from s ref d img uni st' later none show ?thesis by blast
qed

lemma example_store_ok: "store_ok example_arith example_store"
  by (simp add: store_ok_def example_store_def example_session_def new_session_def
      participants_consistent_def)

lemma example_unmatched_upload:
  "upload_participant_image example_arith example_store ''p2'' ''ABCDEF12'' ''img'' [1] None 2 =
     Inr (ReplySuccess, [(Unicast ''p2'', VerificationResult False 1 None ''img'')],
          example_store(''ABCDEF12'' \<mapsto> example_session\<lparr>participants :=
            [participant_record ''p2'' None ''img'' [1] False 1 2]\<rparr>))"
  by (simp add: upload_participant_image_def example_store_def example_session_def
      new_session_def truthy_def distance_to_reference_def distance_unit example_threshold
      Let_def)

theorem disclosure_asymmetry_witness:
  "store_ok example_arith example_store
   \<and> upload_participant_image example_arith example_store ''p2'' ''ABCDEF12'' ''img'' [1] None 2 =
       Inr (ReplySuccess, [(Unicast ''p2'', VerificationResult False 1 None ''img'')],
          example_store(''ABCDEF12'' \<mapsto> example_session\<lparr>participants :=
            [participant_record ''p2'' None ''img'' [1] False 1 2]\<rparr>))
   \<and> (\<forall>rs. list_all
          (\<lambda>es. project (participant_record ''p2'' None ''img'' [1] False 1 2) \<notin> set es)
          (galleries (fst (run example_arith
            (example_store(''ABCDEF12'' \<mapsto> example_session\<lparr>participants :=
              [participant_record ''p2'' None ''img'' [1] False 1 2]\<rparr>)) rs))))"
proof -
  from disclosure_asymmetry [OF example_store_ok example_unmatched_upload]
  obtain s ref d where s: "example_store ''ABCDEF12'' = Some s"
    and ref: "referenceFaceDescriptor s = Some ref"
    and d: "euclideanDistance example_arith ref [1] = Inr d"
    and later: "\<not> num_less example_arith d (threshold example_arith) \<longrightarrow>
          (\<forall>rs. list_all
            (\<lambda>es. project (participant_record ''p2'' None ''img'' [1] False d 2) \<notin> set es)
            (galleries (fst (run example_arith
              (example_store(''ABCDEF12'' \<mapsto> example_session\<lparr>participants :=
                [participant_record ''p2'' None ''img'' [1] False 1 2]\<rparr>)) rs))))"
    by blast
  from s ref have "ref = [0]"
    by (auto simp: example_store_def example_session_def new_session_def)
  with d have "d = 1" by (simp add: distance_unit)
  with later have "\<forall>rs. list_all
            (\<lambda>es. project (participant_record ''p2'' None ''img'' [1] False 1 2) \<notin> set es)
            (galleries (fst (run example_arith
              (example_store(''ABCDEF12'' \<mapsto> example_session\<lparr>participants :=
                [participant_record ''p2'' None ''img'' [1] False 1 2]\<rparr>)) rs)))"
    by (simp add: example_threshold)
  with example_store_ok example_unmatched_upload show ?thesis by (intro conjI)
qed

section \<open>Expiry\<close>













end
